theory Spec2Isabelle
  imports Main "HOL-Library.Word"
begin

unbundle bit_operations_syntax

section \<open>The order-up service: orders, storage and the HTTP handlers\<close>

text \<open>
  A shallow embedding of the Go packages \<^verbatim>\<open>storage\<close> (the order type and the
  MongoDB-backed storage methods of \<^verbatim>\<open>storage/db.go\<close>) and \<^verbatim>\<open>api\<close> (the gin
  handlers of \<^verbatim>\<open>api/api.go\<close>). Go's \<^verbatim>\<open>int64\<close> is \<^typ>\<open>64 word\<close>: addition and
  multiplication wrap around, \<^term>\<open>sint\<close> reads the signed value.
\<close>

subsection \<open>Orders (package storage)\<close>

type_synonym int64 = "64 word"

text \<open>\<^verbatim>\<open>type OrderStatus int64\<close> with its three constants.\<close>

type_synonym OrderStatus = int64

definition OrderStatusPending :: OrderStatus where
  "OrderStatusPending = 0"

definition OrderStatusCharged :: OrderStatus where
  "OrderStatusCharged = 1"

definition OrderStatusFulfilled :: OrderStatus where
  "OrderStatusFulfilled = 2"

record LineItem =
  Description :: string
  PriceCents :: int64
  Quantity :: int64

record Order =
  ID :: string
  CustomerEmail :: string
  LineItems :: "LineItem list"
  Status :: OrderStatus

text \<open>
  \<^verbatim>\<open>func (o Order) TotalCents() int64\<close>: the loop
  \<^verbatim>\<open>for _, li := range o.LineItems { total += li.PriceCents * li.Quantity }\<close>
  with the running total \<open>tot\<close> as accumulator, started at 0.
\<close>

fun TotalCents_loop :: "LineItem list \<Rightarrow> int64 \<Rightarrow> int64" where
  "TotalCents_loop [] tot = tot"
| "TotalCents_loop (li # lis) tot = TotalCents_loop lis (tot + PriceCents li * Quantity li)"

definition TotalCents :: "Order \<Rightarrow> int64" where
  "TotalCents ord = TotalCents_loop (LineItems ord) 0"

text \<open>
  The signed sum of the claim, in unbounded integers: every line item contributes its
  signed price times its signed quantity.
\<close>

definition exact_total :: "Order \<Rightarrow> int" where
  "exact_total ord = sum_list (map (\<lambda>li. sint (PriceCents li) * sint (Quantity li)) (LineItems ord))"

subsection \<open>Errors\<close>

text \<open>
  Go's \<^verbatim>\<open>error\<close> values that the two packages produce or pass on: the sentinels
  \<^verbatim>\<open>storage.ErrOrderNotFound\<close>, \<^verbatim>\<open>storage.ErrOrderExists\<close> and
  \<^verbatim>\<open>mongo.ErrNoDocuments\<close>; any other error of the MongoDB driver (a transport-level
  failure, with its message); and the errors built with \<^verbatim>\<open>fmt.Errorf\<close>:
  \<^verbatim>\<open>"error inserting document: %e"\<close> (the verb is not \<^verbatim>\<open>%w\<close>, so nothing is wrapped),
  \<^verbatim>\<open>"error decoding document: %w"\<close> (around the decoder's error, kept as its message),
  \<^verbatim>\<open>"error making charge request: %w"\<close> and \<^verbatim>\<open>"error charging body: %d %s"\<close>.
\<close>

datatype error =
    ErrOrderNotFound
  | ErrOrderExists
  | ErrNoDocuments
  | DriverError string
  | ErrInsertingDocument error
  | ErrDecodingDocument string
  | ErrMakingChargeRequest string
  | ErrChargingBody nat string

text \<open>
  \<^verbatim>\<open>errors.Is(err, target)\<close>, for the targets the code uses (the three sentinels). None of
  the errors above wraps a sentinel, so the test is equality with the sentinel.
\<close>

definition errors_Is :: "error \<Rightarrow> error \<Rightarrow> bool" where
  "errors_Is err target = (err = target)"

subsection \<open>Generated identifiers\<close>

text \<open>
  \<^verbatim>\<open>uuid.New().String()\<close>: a UUID is an array of 16 bytes, drawn at random by the
  library; its string form is the hexadecimal digits of the bytes in the groups 4-2-2-2-6,
  separated by dashes (\<^verbatim>\<open>hex.Encode\<close> writes two lower-case digits for every byte).
  The bytes drawn are an input of the model.
\<close>

type_synonym UUID = "8 word list"

definition hextable :: string where
  "hextable = ''0123456789abcdef''"

fun hex_Encode :: "8 word list \<Rightarrow> string" where
  "hex_Encode [] = []"
| "hex_Encode (v # src) =
     hextable ! unat (drop_bit 4 v) # hextable ! unat (v AND 15) # hex_Encode src"

definition uuid_String :: "UUID \<Rightarrow> string" where
  "uuid_String u =
     hex_Encode (take 4 u) @ ''-'' @ hex_Encode (take 2 (drop 4 u)) @ ''-'' @
     hex_Encode (take 2 (drop 6 u)) @ ''-'' @ hex_Encode (take 2 (drop 8 u)) @ ''-'' @
     hex_Encode (drop 10 u)"

subsection \<open>The MongoDB collection\<close>

text \<open>
  The collection \<^verbatim>\<open>i.collection\<close> holds the inserted orders as documents, in insertion
  order. \<^verbatim>\<open>ensureSchema\<close> creates no index, so the collection itself accepts two
  documents with the same \<^verbatim>\<open>id\<close> field. The three filters the code builds are
  \<^verbatim>\<open>bson.M{}\<close>, \<^verbatim>\<open>{"id": id}\<close> and \<^verbatim>\<open>{"status": status}\<close>.

  Every driver call can fail (connection lost, deadline exceeded): a \<open>fault\<close> of
  \<open>Some msg\<close> makes the call return that error, \<open>None\<close> lets the call run.
\<close>

type_synonym collection = "Order list"

type_synonym fault = "string option"

datatype filter = filter_all | filter_id string | filter_status OrderStatus

fun matches :: "filter \<Rightarrow> Order \<Rightarrow> bool" where
  "matches filter_all ord = True"
| "matches (filter_id i) ord = (ID ord = i)"
| "matches (filter_status s) ord = (Status ord = s)"

text \<open>\<^verbatim>\<open>collection.FindOne(ctx, filter).Decode(&order)\<close>: the first matching document.\<close>

definition FindOne :: "fault \<Rightarrow> collection \<Rightarrow> filter \<Rightarrow> error + Order" where
  "FindOne f coll flt =
     (case f of
        Some msg \<Rightarrow> Inl (DriverError msg)
      | None \<Rightarrow>
          (case List.find (matches flt) coll of
             None \<Rightarrow> Inl ErrNoDocuments
           | Some ord \<Rightarrow> Inr ord))"

text \<open>
  \<^verbatim>\<open>collection.Find(ctx, filter)\<close> returns an error or a cursor. The caller reads the
  cursor with \<^verbatim>\<open>cursor.Next(ctx)\<close> and \<^verbatim>\<open>cursor.Decode(&order)\<close>: a cursor is the
  sequence of the items that \<^verbatim>\<open>Next\<close> makes current, each one a document that decodes
  to an order or a document on which \<^verbatim>\<open>Decode\<close> returns an error. \<^verbatim>\<open>Next\<close> returns
  false at the end of the matching documents, and also when it fails (the context is
  cancelled, the connection is lost while the next batch is fetched); its error then
  stays in \<^verbatim>\<open>cursor.Err()\<close>: for a caller that only looks at the result of \<^verbatim>\<open>Next\<close>
  such a cursor is one that ends early.

  What happens to the cursor is an input of the model, like the faults: nothing,
  \<open>NextFails n\<close> (\<^verbatim>\<open>Next\<close> fails once \<open>n\<close> documents have been delivered) or
  \<open>DecodeFails n msg\<close> (\<^verbatim>\<open>Decode\<close> fails on the document at position \<open>n\<close>, counted
  from 0, when there is one).
\<close>

datatype cursor_item = Document Order | Undecodable string

type_synonym cursor = "cursor_item list"

datatype cursor_fault = NextFails nat | DecodeFails nat string

fun cursor_of :: "cursor_fault option \<Rightarrow> Order list \<Rightarrow> cursor" where
  "cursor_of None docs = map Document docs"
| "cursor_of (Some (NextFails n)) docs = map Document (take n docs)"
| "cursor_of (Some (DecodeFails n msg)) docs = (map Document docs)[n := Undecodable msg]"

definition Find :: "fault \<Rightarrow> cursor_fault option \<Rightarrow> collection \<Rightarrow> filter \<Rightarrow> error + cursor" where
  "Find f cf coll flt =
     (case f of
        Some msg \<Rightarrow> Inl (DriverError msg)
      | None \<Rightarrow> Inr (cursor_of cf (filter (matches flt) coll)))"

text \<open>\<^verbatim>\<open>collection.InsertOne(ctx, order)\<close>: the document is added.\<close>

definition InsertOne :: "fault \<Rightarrow> collection \<Rightarrow> Order \<Rightarrow> error + collection" where
  "InsertOne f coll ord =
     (case f of
        Some msg \<Rightarrow> Inl (DriverError msg)
      | None \<Rightarrow> Inr (coll @ [ord]))"

text \<open>
  \<^verbatim>\<open>collection.UpdateOne(ctx, filter, {"$set": {"status": status}})\<close>: the first matching
  document gets the new status; the result carries \<^verbatim>\<open>MatchedCount\<close>.
\<close>

fun set_status_first :: "filter \<Rightarrow> OrderStatus \<Rightarrow> collection \<Rightarrow> collection" where
  "set_status_first flt s [] = []"
| "set_status_first flt s (ord # coll) =
     (if matches flt ord then ord\<lparr>Status := s\<rparr> # coll
      else ord # set_status_first flt s coll)"

definition UpdateOne :: "fault \<Rightarrow> collection \<Rightarrow> filter \<Rightarrow> OrderStatus \<Rightarrow> error + (nat \<times> collection)" where
  "UpdateOne f coll flt s =
     (case f of
        Some msg \<Rightarrow> Inl (DriverError msg)
      | None \<Rightarrow>
          (case List.find (matches flt) coll of
             None \<Rightarrow> Inr (0, coll)
           | Some ord \<Rightarrow> Inr (1, set_status_first flt s coll)))"

subsection \<open>The storage methods (storage/db.go)\<close>

text \<open>\<^verbatim>\<open>func (i *Instance) GetOrder(ctx, id) (Order, error)\<close>\<close>

definition GetOrder :: "fault \<Rightarrow> collection \<Rightarrow> string \<Rightarrow> error + Order" where
  "GetOrder f coll i =
     (case FindOne f coll (filter_id i) of
        Inl err \<Rightarrow> (if errors_Is err ErrNoDocuments then Inl ErrOrderNotFound else Inl err)
      | Inr ord \<Rightarrow> Inr ord)"

text \<open>
  \<^verbatim>\<open>func (i *Instance) GetOrders(ctx, status) ([]Order, error)\<close>. The special status
  \<open>-1\<close> selects the empty filter. \<open>GetOrders_loop\<close> is the loop
  \<^verbatim>\<open>for cursor.Next(ctx) { ... }\<close> with the slice \<open>orders\<close> built so far: a document that
  does not decode ends the method with the wrapped error; when \<^verbatim>\<open>Next\<close> returns false
  the loop is left and \<open>orders\<close> is returned with a nil error (the method does not read
  \<^verbatim>\<open>cursor.Err()\<close>). Go's nil slice and its empty slice are both \<open>[]\<close>.
\<close>

fun GetOrders_loop :: "cursor \<Rightarrow> Order list \<Rightarrow> error + Order list" where
  "GetOrders_loop [] orders = Inr orders"
| "GetOrders_loop (Document ord # cur) orders = GetOrders_loop cur (orders @ [ord])"
| "GetOrders_loop (Undecodable msg # cur) orders = Inl (ErrDecodingDocument msg)"

definition GetOrders :: "fault \<Rightarrow> cursor_fault option \<Rightarrow> collection \<Rightarrow> OrderStatus \<Rightarrow> error + Order list" where
  "GetOrders f cf coll status =
     (let flt = (if status = - 1 then filter_all else filter_status status)
      in case Find f cf coll flt of
           Inl err \<Rightarrow> (if errors_Is err ErrNoDocuments then Inl ErrOrderNotFound else Inl err)
         | Inr cur \<Rightarrow> GetOrders_loop cur [])"

text \<open>
  \<^verbatim>\<open>func (i *Instance) SetOrderStatus(ctx, id, status) error\<close>: the returned error
  (\<open>None\<close> for Go's nil) and the collection afterwards.
\<close>

definition SetOrderStatus :: "fault \<Rightarrow> collection \<Rightarrow> string \<Rightarrow> OrderStatus \<Rightarrow> error option \<times> collection" where
  "SetOrderStatus f coll i status =
     (case UpdateOne f coll (filter_id i) status of
        Inl err \<Rightarrow> (Some err, coll)
      | Inr (matched, coll') \<Rightarrow>
          (if matched = 0 then (Some ErrOrderNotFound, coll') else (None, coll')))"

text \<open>
  \<^verbatim>\<open>func (i *Instance) InsertOrder(ctx, order) (string, error)\<close>. \<open>u\<close> is the UUID that
  \<^verbatim>\<open>uuid.New()\<close> draws when the order has no id, \<open>ff\<close> the fault of the existence
  lookup, \<open>fi\<close> the fault of the insertion. \<open>insert_document\<close> is the part of the
  method after the id has been settled (from \<^verbatim>\<open>InsertOne\<close> to the return).
\<close>

definition insert_document :: "fault \<Rightarrow> collection \<Rightarrow> Order \<Rightarrow> (error + string) \<times> collection" where
  "insert_document fi coll ord =
     (case InsertOne fi coll ord of
        Inl err \<Rightarrow> (Inl (ErrInsertingDocument err), coll)
      | Inr coll' \<Rightarrow> (Inr (ID ord), coll'))"

definition InsertOrder :: "UUID \<Rightarrow> fault \<Rightarrow> fault \<Rightarrow> collection \<Rightarrow> Order \<Rightarrow> (error + string) \<times> collection" where
  "InsertOrder u ff fi coll ord =
     (if ID ord = []
      then insert_document fi coll (ord\<lparr>ID := uuid_String u\<rparr>)
      else (case FindOne ff coll (filter_id (ID ord)) of
              Inr found \<Rightarrow> (Inl ErrOrderExists, coll)
            | Inl err \<Rightarrow> insert_document fi coll ord))"

subsection \<open>The charge service (api/api.go)\<close>

text \<open>The status codes of \<^verbatim>\<open>net/http\<close> that the handlers use.\<close>

definition StatusOK :: nat where
  "StatusOK = 200"

definition StatusCreated :: nat where
  "StatusCreated = 201"

definition StatusBadRequest :: nat where
  "StatusBadRequest = 400"

definition StatusNotFound :: nat where
  "StatusNotFound = 404"

definition StatusConflict :: nat where
  "StatusConflict = 409"

definition StatusInternalServerError :: nat where
  "StatusInternalServerError = 500"

record chargeServiceChargeArgs =
  CardToken :: string
  AmountCents :: int64

text \<open>
  What \<^verbatim>\<open>i.chargeService.Post("/charge", ...)\<close> gives back: an error of the client, or
  a response with its status code and body. The charge service is outside the
  repository: it is a function from the posted arguments to its reply.
\<close>

datatype http_reply = PostError string | Response nat string

type_synonym service = "chargeServiceChargeArgs \<Rightarrow> http_reply"

text \<open>
  \<^verbatim>\<open>func (i *instance) innerChargeOrder(ctx, args) error\<close>: one POST to the charge
  service; any status but 201 is an error. (\<^verbatim>\<open>json.Marshal\<close> of a string and an
  integer does not fail.) \<open>None\<close> is Go's nil error.
\<close>

definition innerChargeOrder :: "service \<Rightarrow> chargeServiceChargeArgs \<Rightarrow> error option" where
  "innerChargeOrder svc args =
     (case svc args of
        PostError msg \<Rightarrow> Some (ErrMakingChargeRequest msg)
      | Response code body \<Rightarrow>
          (if code \<noteq> StatusCreated then Some (ErrChargingBody code body) else None))"

subsection \<open>The handlers (api/api.go)\<close>

text \<open>
  The JSON values a handler passes to \<^verbatim>\<open>c.JSON\<close>: \<^verbatim>\<open>gin.H{"error": ...}\<close> with a fixed
  message, with a message formatted from an error (\<^verbatim>\<open>fmt.Sprintf("...: %v", err)\<close>) or
  with \<^verbatim>\<open>err.Error()\<close>, and the four result structs. \<open>page_not_found\<close> is the answer of
  the router when no route matches.
\<close>

datatype body =
    H_error string
  | H_error_v string error
  | H_error_Error error
  | getOrdersRes "Order list"
  | getOrderRes Order
  | postOrderRes Order
  | chargeOrderRes int64
  | page_not_found

text \<open>
  What a request needs from outside the handler: the faults of the driver calls it makes
  (each handler makes at most one call of each kind), what happens to the cursor of
  \<^verbatim>\<open>GetOrders\<close>, the UUID the library would draw, and the charge service.
\<close>

record env =
  find_fault :: fault
  cursor_fault :: "cursor_fault option"
  insert_fault :: fault
  update_fault :: fault
  new_uuid :: UUID
  chargeService :: service

text \<open>
  What a handler does: the calls of \<^verbatim>\<open>c.JSON(code, obj)\<close> in the order they are made
  (the first one fixes the status code of the HTTP response), the collection afterwards,
  the requests posted to the charge service, and the calls of
  \<^verbatim>\<open>i.stor.SetOrderStatus(ctx, id, status)\<close> it makes, each with its id and status.
\<close>

record outcome =
  written :: "(nat \<times> body) list"
  stor :: collection
  charged :: "chargeServiceChargeArgs list"
  status_writes :: "(string \<times> OrderStatus) list"

definition respond :: "collection \<Rightarrow> (nat \<times> body) list \<Rightarrow> outcome" where
  "respond coll w = \<lparr>written = w, stor = coll, charged = [], status_writes = []\<rparr>"

text \<open>
  The \<^verbatim>\<open>switch c.Query("status")\<close> of \<^verbatim>\<open>getOrders\<close>: the status to pass on, or \<open>None\<close>
  for the default case.
\<close>

definition status_of_query :: "string \<Rightarrow> OrderStatus option" where
  "status_of_query q =
     (if q = ''pending'' then Some OrderStatusPending
      else if q = ''charged'' then Some OrderStatusCharged
      else if q = ''fulfilled'' then Some OrderStatusFulfilled
      else if q = [] then Some (- 1)
      else None)"

text \<open>\<^verbatim>\<open>func (i *instance) getOrders(c *gin.Context)\<close>; \<open>q\<close> is \<^verbatim>\<open>c.Query("status")\<close>.\<close>

definition getOrders :: "env \<Rightarrow> collection \<Rightarrow> string \<Rightarrow> outcome" where
  "getOrders e coll q =
     (case status_of_query q of
        None \<Rightarrow> respond coll [(StatusBadRequest, H_error ''unknown value for status: %v'')]
      | Some status \<Rightarrow>
          (case GetOrders (find_fault e) (cursor_fault e) coll status of
             Inl err \<Rightarrow>
               respond coll [(StatusInternalServerError, H_error_v ''error getting orders: %v'' err)]
           | Inr orders \<Rightarrow> respond coll [(StatusOK, getOrdersRes orders)]))"

text \<open>\<^verbatim>\<open>func (i *instance) getOrder(c *gin.Context)\<close>; \<open>i\<close> is \<^verbatim>\<open>c.Param("id")\<close>.\<close>

definition getOrder :: "env \<Rightarrow> collection \<Rightarrow> string \<Rightarrow> outcome" where
  "getOrder e coll i =
     (case GetOrder (find_fault e) coll i of
        Inl err \<Rightarrow>
          (if errors_Is err ErrOrderNotFound
           then respond coll [(StatusNotFound, H_error ''not found'')]
           else respond coll [(StatusInternalServerError, H_error_v ''error getting order: %v'' err)])
      | Inr ord \<Rightarrow> respond coll [(StatusOK, getOrderRes ord)])"

text \<open>
  \<^verbatim>\<open>postOrderArgs\<close>, the body of \<^verbatim>\<open>POST /orders\<close>. A handler receives the result of
  \<^verbatim>\<open>c.BindJSON(&args)\<close>: \<open>None\<close> when the body does not decode (the text of the
  decoder's error is left as the \<^verbatim>\<open>%v\<close> of the message).
\<close>

record postOrderArgs =
  args_CustomerEmail :: string
  args_LineItems :: "LineItem list"

text \<open>
  \<^verbatim>\<open>func (i *instance) postOrders(c *gin.Context)\<close>. The branch for a negative total
  calls \<^verbatim>\<open>c.JSON\<close> and has no \<^verbatim>\<open>return\<close>: the function goes on to
  \<^verbatim>\<open>InsertOrder\<close>, and what it writes afterwards follows the first write.
\<close>

definition postOrders :: "env \<Rightarrow> collection \<Rightarrow> postOrderArgs option \<Rightarrow> outcome" where
  "postOrders e coll bound =
     (case bound of
        None \<Rightarrow> respond coll [(StatusBadRequest, H_error ''error decoding body: %v'')]
      | Some args \<Rightarrow>
          if CHR ''@'' \<notin> set (args_CustomerEmail args)
          then respond coll [(StatusBadRequest, H_error ''invalid customerEmail'')]
          else if length (args_LineItems args) < 1
          then respond coll
                 [(StatusBadRequest, H_error ''an order must contain at least one line item'')]
          else
            (let ord = \<lparr>ID = [], CustomerEmail = args_CustomerEmail args,
                        LineItems = args_LineItems args, Status = OrderStatusPending\<rparr>;
                 w = (if sint (TotalCents ord) < 0
                      then [(StatusBadRequest, H_error ''an order's total cannot be less than 0'')]
                      else [])
             in case InsertOrder (new_uuid e) (find_fault e) (insert_fault e) coll ord of
                  (Inl err, coll') \<Rightarrow>
                    (if errors_Is err ErrOrderExists
                     then respond coll' (w @ [(StatusConflict, H_error ''order already exists'')])
                     else respond coll'
                            (w @ [(StatusInternalServerError,
                                   H_error_v ''error inserting order: %v'' err)]))
                | (Inr i, coll') \<Rightarrow>
                    respond coll' (w @ [(StatusCreated, postOrderRes (ord\<lparr>ID := i\<rparr>))])))"

text \<open>\<^verbatim>\<open>chargeOrderArgs\<close>, the body of \<^verbatim>\<open>POST /orders/:id/charge\<close>.\<close>

datatype chargeOrderArgs = chargeOrderArgs (cardToken: string)

text \<open>
  \<^verbatim>\<open>func (i *instance) chargeOrder(c *gin.Context)\<close>; \<open>i\<close> is \<^verbatim>\<open>c.Param("id")\<close>,
  \<open>bound\<close> the result of \<^verbatim>\<open>c.BindJSON(&args)\<close>. The status test is the source's:
  \<^verbatim>\<open>if order.Status != storage.OrderStatusCharged\<close>.
\<close>

definition chargeOrder :: "env \<Rightarrow> collection \<Rightarrow> string \<Rightarrow> chargeOrderArgs option \<Rightarrow> outcome" where
  "chargeOrder e coll i bound =
     (case bound of
        None \<Rightarrow> respond coll [(StatusBadRequest, H_error ''error decoding body: %v'')]
      | Some args \<Rightarrow>
          (case GetOrder (find_fault e) coll i of
             Inl err \<Rightarrow>
               (if errors_Is err ErrOrderNotFound
                then respond coll [(StatusNotFound, H_error ''not found'')]
                else respond coll
                       [(StatusInternalServerError, H_error_v ''error getting order: %v'' err)])
           | Inr ord \<Rightarrow>
               if Status ord \<noteq> OrderStatusCharged
               then respond coll [(StatusConflict, H_error ''order ineligible for charging'')]
               else
                 (let cargs = \<lparr>CardToken = cardToken args, AmountCents = TotalCents ord\<rparr>
                  in case innerChargeOrder (chargeService e) cargs of
                       Some err \<Rightarrow>
                         \<lparr>written = [(StatusInternalServerError, H_error_Error err)],
                          stor = coll, charged = [cargs], status_writes = []\<rparr>
                     | None \<Rightarrow>
                         (case SetOrderStatus (update_fault e) coll (ID ord) OrderStatusCharged of
                            (Some err, coll') \<Rightarrow>
                              \<lparr>written = [(StatusInternalServerError,
                                            H_error_v ''error updating order to charged: %v'' err)],
                               stor = coll', charged = [cargs],
                               status_writes = [(ID ord, OrderStatusCharged)]\<rparr>
                          | (None, coll') \<Rightarrow>
                              \<lparr>written = [(StatusOK, chargeOrderRes (TotalCents ord))],
                               stor = coll', charged = [cargs],
                               status_writes = [(ID ord, OrderStatusCharged)]\<rparr>))))"

subsection \<open>The router\<close>

text \<open>
  \<^verbatim>\<open>func Handler(stor, fulfillmentService, chargeService) http.Handler\<close> registers four
  routes, and \<^verbatim>\<open>ServeHTTP\<close> hands every request to the router:
  \<^verbatim>\<open>GET /orders\<close>, \<^verbatim>\<open>POST /orders\<close>, \<^verbatim>\<open>GET /orders/:id\<close> and
  \<^verbatim>\<open>POST /orders/:id/charge\<close>. A request is its method, the (non-empty) segments of
  its path, the \<^verbatim>\<open>status\<close> parameter of its query and what its body decodes to. A
  request that matches no route is answered by the router with 404.
\<close>

record request =
  req_method :: string
  req_path :: "string list"
  query_status :: string
  json_postOrderArgs :: "postOrderArgs option"
  json_chargeOrderArgs :: "chargeOrderArgs option"

datatype handler = h_getOrders | h_postOrders | h_getOrder string | h_chargeOrder string

definition Handler :: "string \<Rightarrow> string list \<Rightarrow> handler option" where
  "Handler m p =
     (if m = ''GET'' then
        (case p of
           [a] \<Rightarrow> if a = ''orders'' then Some h_getOrders else None
         | [a, i] \<Rightarrow> if a = ''orders'' then Some (h_getOrder i) else None
         | _ \<Rightarrow> None)
      else if m = ''POST'' then
        (case p of
           [a] \<Rightarrow> if a = ''orders'' then Some h_postOrders else None
         | [a, i, b] \<Rightarrow>
             if a = ''orders'' \<and> b = ''charge'' then Some (h_chargeOrder i) else None
         | _ \<Rightarrow> None)
      else None)"

definition ServeHTTP :: "env \<Rightarrow> collection \<Rightarrow> request \<Rightarrow> outcome" where
  "ServeHTTP e coll r =
     (case Handler (req_method r) (req_path r) of
        None \<Rightarrow> respond coll [(StatusNotFound, page_not_found)]
      | Some h_getOrders \<Rightarrow> getOrders e coll (query_status r)
      | Some h_postOrders \<Rightarrow> postOrders e coll (json_postOrderArgs r)
      | Some (h_getOrder i) \<Rightarrow> getOrder e coll i
      | Some (h_chargeOrder i) \<Rightarrow> chargeOrder e coll i (json_chargeOrderArgs r))"

subsection \<open>Concrete orders, stores and services\<close>

text \<open>
  The orders of the repository's tests (\<^verbatim>\<open>api/api_test.go\<close>, \<^verbatim>\<open>storage/db_test.go\<close>):
  the order \<^verbatim>\<open>"test"\<close> of \<^verbatim>\<open>TestChargeOrder\<close> with its line items and status, the
  mocked charge service that answers 201, and the two orders of \<^verbatim>\<open>TestGetOrders\<close>.
\<close>

definition item :: "string \<Rightarrow> int64 \<Rightarrow> int64 \<Rightarrow> LineItem" where
  "item d p q = \<lparr>Description = d, PriceCents = p, Quantity = q\<rparr>"

definition test_order :: "LineItem list \<Rightarrow> OrderStatus \<Rightarrow> Order" where
  "test_order lis s =
     \<lparr>ID = ''test'', CustomerEmail = ''test@test'', LineItems = lis, Status = s\<rparr>"

definition order1 :: Order where
  "order1 = \<lparr>ID = ''test1'', CustomerEmail = ''test@test'',
             LineItems = [item ''item 1'' 1000 1, item ''item 2'' 5000 10],
             Status = OrderStatusCharged\<rparr>"

definition order2 :: Order where
  "order2 = \<lparr>ID = ''test2'', CustomerEmail = ''test@test'',
             LineItems = [item ''item 3'' 500 2, item ''item 4'' 1000 1],
             Status = OrderStatusFulfilled\<rparr>"

definition chgServ :: service where
  "chgServ args = Response StatusCreated []"

text \<open>A charge service that refuses every charge, and one that cannot be reached.\<close>

definition decliningServ :: service where
  "decliningServ args = Response 402 ''card declined''"

definition unreachableServ :: service where
  "unreachableServ args = PostError ''connection refused''"

text \<open>
  A version-4 UUID (the version and variant bits set, every random bit 0) and its string
  form.
\<close>

definition drawn_uuid :: UUID where
  "drawn_uuid = [0, 0, 0, 0, 0, 0, 64, 0, 128, 0, 0, 0, 0, 0, 0, 0]"

definition drawn_id :: string where
  "drawn_id = ''00000000-0000-4000-8000-000000000000''"

text \<open>A request environment in which every driver call runs and the charge service answers 201.\<close>

definition test_env :: env where
  "test_env = \<lparr>find_fault = None, cursor_fault = None, insert_fault = None,
                update_fault = None, new_uuid = drawn_uuid, chargeService = chgServ\<rparr>"

text \<open>An order whose single line item has the largest \<^verbatim>\<open>int64\<close> price, twice.\<close>

definition large_order :: Order where
  "large_order = test_order [item ''item 1'' 9223372036854775807 2] OrderStatusPending"

text \<open>The body of \<^verbatim>\<open>TestPostOrders\<close>, "should error on negative order amount".\<close>

definition negative_args :: postOrderArgs where
  "negative_args =
     \<lparr>args_CustomerEmail = ''test@test'',
      args_LineItems = [item ''item 1'' 1000 1, item ''huge discount'' (- 10000) 1]\<rparr>"

text \<open>Two requests to fulfil the order \<^verbatim>\<open>"test"\<close>.\<close>

definition post_fulfill :: request where
  "post_fulfill = \<lparr>req_method = ''POST'', req_path = [''orders'', ''test'', ''fulfill''],
                   query_status = [], json_postOrderArgs = None, json_chargeOrderArgs = None\<rparr>"

definition put_fulfill :: request where
  "put_fulfill = \<lparr>req_method = ''PUT'', req_path = [''fulfill''],
                  query_status = [], json_postOrderArgs = None, json_chargeOrderArgs = None\<rparr>"

section \<open>Properties\<close>

subsection \<open>Facts about TotalCents\<close>

lemma TotalCents_loop_sum:
  "TotalCents_loop lis tot = tot + sum_list (map (\<lambda>li. PriceCents li * Quantity li) lis)"
  by (induction lis arbitrary: tot) (simp_all add: add.assoc)

lemma word_of_int_sum_list:
  "(word_of_int (sum_list (map f xs)) :: int64) = sum_list (map (\<lambda>x. word_of_int (f x)) xs)"
  by (induction xs) simp_all

lemma TotalCents_word_of_exact: "TotalCents ord = word_of_int (exact_total ord)"
  by (simp add: TotalCents_def exact_total_def TotalCents_loop_sum word_of_int_sum_list)

lemma sint_TotalCents: "sint (TotalCents ord) = signed_take_bit 63 (exact_total ord)"
  by (simp add: TotalCents_word_of_exact sint_sbintrunc')

subsection \<open>Facts about identifiers and lookups\<close>

lemma uuid_String_nonempty: "uuid_String u \<noteq> []"
  by (simp add: uuid_String_def)

lemma uuid_String_drawn: "uuid_String drawn_uuid = drawn_id"
  by (simp add: drawn_uuid_def drawn_id_def uuid_String_def hextable_def)

lemma find_id_iff: "(\<exists>found. List.find (matches (filter_id i)) coll = Some found) \<longleftrightarrow> i \<in> ID ` set coll"
  by (induction coll) auto

lemma FindOne_present: "i \<in> ID ` set coll \<Longrightarrow> \<exists>found. FindOne None coll (filter_id i) = Inr found"
  using find_id_iff [of i coll] by (auto simp: FindOne_def)

lemma find_fresh_appended:
  "i \<notin> ID ` set coll \<Longrightarrow> ID ord = i \<Longrightarrow> List.find (matches (filter_id i)) (coll @ [ord]) = Some ord"
  by (induction coll) auto

lemmas status_defs = OrderStatusPending_def OrderStatusCharged_def OrderStatusFulfilled_def

lemmas code_defs = StatusOK_def StatusCreated_def StatusBadRequest_def StatusNotFound_def
  StatusConflict_def StatusInternalServerError_def

lemmas charge_defs = chargeOrder_def GetOrder_def FindOne_def errors_Is_def respond_def
  innerChargeOrder_def SetOrderStatus_def UpdateOne_def TotalCents_def

lemmas fixture_defs = test_order_def test_env_def item_def chgServ_def

subsection \<open>Charging an order\<close>

text \<open>
  Claim C1. For a stored Pending order with a strictly positive total, \<open>chargeOrder\<close>
  should call the charge service once with the total, move the order to Charged and
  return the total. The handler tests \<^verbatim>\<open>order.Status != storage.OrderStatusCharged\<close>,
  so on the Pending order of \<^verbatim>\<open>TestChargeOrder\<close> (one item at 100) it answers 409,
  posts nothing to the charge service and leaves the order Pending.
\<close>

theorem chargeOrder_pending_is_refused:
  "chargeOrder test_env [test_order [item ''item 1'' 100 1] OrderStatusPending] ''test''
     (Some (chargeOrderArgs ''amex''))
   = \<lparr>written = [(StatusConflict, H_error ''order ineligible for charging'')],
      stor = [test_order [item ''item 1'' 100 1] OrderStatusPending],
      charged = [], status_writes = []\<rparr>"
  by (simp add: charge_defs fixture_defs status_defs code_defs)

text \<open>
  Claim C2. For a stored order that is Charged or Fulfilled, \<open>chargeOrder\<close> should fail
  with a conflict and never call the charge service. The Fulfilled order is refused with
  409; the Charged order passes the status test, is posted to the charge service with
  amount 100, is set to Charged again and answered with 200.
\<close>

theorem chargeOrder_charged_is_charged_again:
  "chargeOrder test_env [test_order [item ''item 1'' 100 1] OrderStatusCharged] ''test''
     (Some (chargeOrderArgs ''amex''))
   = \<lparr>written = [(StatusOK, chargeOrderRes 100)],
      stor = [test_order [item ''item 1'' 100 1] OrderStatusCharged],
      charged = [\<lparr>CardToken = ''amex'', AmountCents = 100\<rparr>],
      status_writes = [(''test'', OrderStatusCharged)]\<rparr>
   \<and> chargeOrder test_env [test_order [item ''item 1'' 100 1] OrderStatusFulfilled] ''test''
     (Some (chargeOrderArgs ''amex''))
   = \<lparr>written = [(StatusConflict, H_error ''order ineligible for charging'')],
      stor = [test_order [item ''item 1'' 100 1] OrderStatusFulfilled],
      charged = [], status_writes = []\<rparr>"
  by (simp add: charge_defs fixture_defs status_defs code_defs)

text \<open>
  Claim C3. For a stored Pending order whose line items sum to 0, \<open>chargeOrder\<close>
  should move the order to Charged without a call to the charge service and return 0.
  On the order of \<^verbatim>\<open>TestChargeOrder\<close> with one item at 100 and a discount of -100 the
  total is 0 and the handler answers 409, with the order left Pending; and the handler
  has no test of the amount: the same line items on an order that passes the status
  test are posted to the charge service with amount 0.
\<close>

theorem chargeOrder_zero_total_is_refused:
  "TotalCents (test_order [item ''item 1'' 100 1, item ''#1 customer discount'' (- 100) 1]
       OrderStatusPending) = 0
   \<and> chargeOrder test_env
       [test_order [item ''item 1'' 100 1, item ''#1 customer discount'' (- 100) 1]
          OrderStatusPending]
       ''test'' (Some (chargeOrderArgs ''amex''))
     = \<lparr>written = [(StatusConflict, H_error ''order ineligible for charging'')],
        stor = [test_order [item ''item 1'' 100 1, item ''#1 customer discount'' (- 100) 1]
                  OrderStatusPending],
        charged = [], status_writes = []\<rparr>
   \<and> charged (chargeOrder test_env
       [test_order [item ''item 1'' 100 1, item ''#1 customer discount'' (- 100) 1]
          OrderStatusCharged]
       ''test'' (Some (chargeOrderArgs ''amex'')))
     = [\<lparr>CardToken = ''amex'', AmountCents = 0\<rparr>]"
  by (simp add: charge_defs fixture_defs status_defs code_defs)

text \<open>
  Claim C4. In every execution of \<open>chargeOrder\<close> in which the call to the charge service
  fails (the POST returns an error, or a status other than 201), the handler answers
  with the single response 500 carrying the gateway's error and performs no status
  write: it makes no call of \<^verbatim>\<open>SetOrderStatus\<close>, the collection afterwards is the
  collection before, and the whole outcome is the same whatever \<^verbatim>\<open>UpdateOne\<close> would
  have done in that request. The request that failed is the only one posted.
\<close>

theorem chargeOrder_gateway_failure_writes_nothing:
  assumes "cargs \<in> set (charged (chargeOrder e coll i bound))"
    and "innerChargeOrder (chargeService e) cargs = Some err"
  shows "written (chargeOrder e coll i bound) = [(StatusInternalServerError, H_error_Error err)]
       \<and> status_writes (chargeOrder e coll i bound) = []
       \<and> stor (chargeOrder e coll i bound) = coll
       \<and> charged (chargeOrder e coll i bound) = [cargs]
       \<and> chargeOrder (e\<lparr>update_fault := uf\<rparr>) coll i bound = chargeOrder e coll i bound"
  using assms
  by (auto simp: chargeOrder_def respond_def Let_def
      split: option.splits sum.splits if_splits prod.splits)

text \<open>
  The theorem at the Charged order of the tests with a charge service that declines: no
  status is written, and the outcome is the same when the update would fail. Where the
  charge service answers 201 the same request does write: its outcome has the call
  \<^verbatim>\<open>SetOrderStatus("test", OrderStatusCharged)\<close>.
\<close>

theorem chargeOrder_gateway_failure_witness:
  "chargeOrder (test_env\<lparr>chargeService := decliningServ\<rparr>)
       [test_order [item ''item 1'' 100 1] OrderStatusCharged] ''test''
       (Some (chargeOrderArgs ''amex''))
     = \<lparr>written = [(StatusInternalServerError, H_error_Error (ErrChargingBody 402 ''card declined''))],
        stor = [test_order [item ''item 1'' 100 1] OrderStatusCharged],
        charged = [\<lparr>CardToken = ''amex'', AmountCents = 100\<rparr>],
        status_writes = []\<rparr>
   \<and> chargeOrder (test_env\<lparr>chargeService := decliningServ, update_fault := Some ''connection reset by peer''\<rparr>)
       [test_order [item ''item 1'' 100 1] OrderStatusCharged] ''test''
       (Some (chargeOrderArgs ''amex''))
     = chargeOrder (test_env\<lparr>chargeService := decliningServ\<rparr>)
       [test_order [item ''item 1'' 100 1] OrderStatusCharged] ''test''
       (Some (chargeOrderArgs ''amex''))
   \<and> status_writes (chargeOrder test_env
       [test_order [item ''item 1'' 100 1] OrderStatusCharged] ''test''
       (Some (chargeOrderArgs ''amex''))) = [(''test'', OrderStatusCharged)]"
proof -
  let ?e = "test_env\<lparr>chargeService := decliningServ\<rparr>"
  let ?coll = "[test_order [item ''item 1'' 100 1] OrderStatusCharged]"
  let ?cargs = "\<lparr>CardToken = ''amex'', AmountCents = 100\<rparr>"
  let ?err = "ErrChargingBody 402 ''card declined''"
  let ?res = "chargeOrder ?e ?coll ''test'' (Some (chargeOrderArgs ''amex''))"
  have posted: "?cargs \<in> set (charged ?res)"
    by (simp add: charge_defs fixture_defs status_defs code_defs decliningServ_def)
  have failed: "innerChargeOrder (chargeService ?e) ?cargs = Some ?err"
    by (simp add: innerChargeOrder_def decliningServ_def code_defs)
  note at_input = chargeOrder_gateway_failure_writes_nothing
    [OF posted failed, of "Some ''connection reset by peer''"]
  from at_input have fields: "written ?res = [(StatusInternalServerError, H_error_Error ?err)]"
    "status_writes ?res = []" "stor ?res = ?coll" "charged ?res = [?cargs]"
    by simp_all
  then have outcome: "?res = \<lparr>written = [(StatusInternalServerError, H_error_Error ?err)],
        stor = ?coll, charged = [?cargs], status_writes = []\<rparr>"
    by (cases ?res) simp
  from at_input have same: "chargeOrder (?e\<lparr>update_fault := Some ''connection reset by peer''\<rparr>)
      ?coll ''test'' (Some (chargeOrderArgs ''amex'')) = ?res"
    by simp
  have written_on_success: "status_writes (chargeOrder test_env ?coll ''test''
      (Some (chargeOrderArgs ''amex''))) = [(''test'', OrderStatusCharged)]"
    by (simp add: charge_defs fixture_defs status_defs code_defs)
  from outcome same written_on_success show ?thesis
    by simp
qed

subsection \<open>Creating an order\<close>

text \<open>
  Claim C5. For a creation request whose line items sum to a negative total,
  \<open>postOrders\<close> should fail with a validation error before any store write. On the body
  of the test "should error on negative order amount" (1000 and a discount of -10000)
  the handler writes the 400 and, having no \<^verbatim>\<open>return\<close> in that branch, goes on to
  \<^verbatim>\<open>InsertOrder\<close>: the order is in the collection afterwards, under a generated id.
\<close>

theorem postOrders_negative_total_is_inserted:
  "postOrders test_env [] (Some negative_args)
   = \<lparr>written =
        [(StatusBadRequest, H_error ''an order's total cannot be less than 0''),
         (StatusCreated,
          postOrderRes \<lparr>ID = drawn_id, CustomerEmail = ''test@test'',
                        LineItems = [item ''item 1'' 1000 1, item ''huge discount'' (- 10000) 1],
                        Status = OrderStatusPending\<rparr>)],
      stor = [\<lparr>ID = drawn_id, CustomerEmail = ''test@test'',
               LineItems = [item ''item 1'' 1000 1, item ''huge discount'' (- 10000) 1],
               Status = OrderStatusPending\<rparr>],
      charged = [], status_writes = []\<rparr>"
  by (simp add: postOrders_def InsertOrder_def insert_document_def InsertOne_def
      errors_Is_def respond_def TotalCents_def negative_args_def fixture_defs
      uuid_String_drawn)

subsection \<open>The total of an order\<close>

text \<open>
  Claim C6, as amended. \<open>TotalCents\<close> is a function of the line items alone (no other
  field of the order enters it, and the order has no field that stores a total), and
  it is the signed sum of price times quantity over the line items computed in 64-bit
  two's complement: the exact sum reduced to the \<^verbatim>\<open>int64\<close> range, hence the exact sum
  whenever that lies between \<open>-2^63\<close> and \<open>2^63 - 1\<close>.
\<close>

theorem TotalCents_is_wrapped_signed_sum:
  "sint (TotalCents ord) = signed_take_bit 63 (exact_total ord)
   \<and> (- (2 ^ 63) \<le> exact_total ord \<and> exact_total ord < 2 ^ 63 \<longrightarrow>
        sint (TotalCents ord) = exact_total ord)
   \<and> TotalCents (ord\<lparr>ID := i, CustomerEmail := m, Status := s\<rparr>) = TotalCents ord"
proof -
  have wrapped: "sint (TotalCents ord) = signed_take_bit 63 (exact_total ord)"
    by (rule sint_TotalCents)
  have in_range: "sint (TotalCents ord) = exact_total ord"
    if "- (2 ^ 63) \<le> exact_total ord" and "exact_total ord < 2 ^ 63"
    using that by (simp add: wrapped signed_take_bit_int_eq_self)
  have items_only: "TotalCents (ord\<lparr>ID := i, CustomerEmail := m, Status := s\<rparr>) = TotalCents ord"
    by (simp add: TotalCents_def)
  from wrapped in_range items_only show ?thesis
    by blast
qed

text \<open>The theorem at the first order of the storage tests: 1000 + 10 * 5000 = 51000.\<close>

theorem TotalCents_is_wrapped_signed_sum_witness:
  "- (2 ^ 63) \<le> exact_total order1 \<and> exact_total order1 < 2 ^ 63
   \<and> exact_total order1 = 51000 \<and> sint (TotalCents order1) = 51000"
proof -
  have exact: "exact_total order1 = 51000"
    by (simp add: exact_total_def order1_def item_def)
  with TotalCents_is_wrapped_signed_sum [of order1] show ?thesis
    by simp
qed

text \<open>
  The claim as stated (the total equals the signed sum) fails where the sum leaves the
  \<^verbatim>\<open>int64\<close> range: one line item at the price 9223372036854775807 with quantity 2
  has the signed sum 18446744073709551614, and \<open>TotalCents\<close> returns -2.
\<close>

theorem TotalCents_overflow_counterexample:
  "exact_total large_order = 18446744073709551614
   \<and> sint (TotalCents large_order) = - 2
   \<and> sint (TotalCents large_order) \<noteq> exact_total large_order"
  by (simp add: large_order_def test_order_def item_def TotalCents_def exact_total_def)

subsection \<open>Inserting an order\<close>

text \<open>
  What \<open>InsertOrder\<close> does when the driver call it reaches answers. An order with an
  empty id is appended under the string form of the generated UUID, which is never
  empty; the method does not look that id up, and when it is none of the stored ids,
  \<open>GetOrder\<close> of the returned id finds the inserted order. An order whose non-empty id is
  the id of a stored order is refused with \<open>ErrOrderExists\<close> when the lookup runs, and
  the collection stays as it was.
\<close>

lemma InsertOrder_when_driver_answers:
  "(ID ord = [] \<longrightarrow>
      InsertOrder u ff None coll ord
        = (Inr (uuid_String u), coll @ [ord\<lparr>ID := uuid_String u\<rparr>])
      \<and> uuid_String u \<noteq> []
      \<and> (uuid_String u \<notin> ID ` set coll \<longrightarrow>
           GetOrder None (snd (InsertOrder u ff None coll ord)) (uuid_String u)
             = Inr (ord\<lparr>ID := uuid_String u\<rparr>)))
   \<and> (ID ord \<noteq> [] \<and> ID ord \<in> ID ` set coll \<longrightarrow>
        InsertOrder u None fi coll ord = (Inl ErrOrderExists, coll))"
proof -
  have generated: "InsertOrder u ff None coll ord
      = (Inr (uuid_String u), coll @ [ord\<lparr>ID := uuid_String u\<rparr>])" if "ID ord = []"
    using that by (simp add: InsertOrder_def insert_document_def InsertOne_def)
  have found: "GetOrder None (coll @ [ord\<lparr>ID := uuid_String u\<rparr>]) (uuid_String u)
      = Inr (ord\<lparr>ID := uuid_String u\<rparr>)" if "uuid_String u \<notin> ID ` set coll"
    using find_fresh_appended [OF that, of "ord\<lparr>ID := uuid_String u\<rparr>"]
    by (simp add: GetOrder_def FindOne_def)
  have existing: "InsertOrder u None fi coll ord = (Inl ErrOrderExists, coll)"
    if "ID ord \<noteq> []" and "ID ord \<in> ID ` set coll"
    using that FindOne_present [of "ID ord" coll] by (auto simp: InsertOrder_def)
  from generated found existing show ?thesis
    by (simp add: uuid_String_nonempty)
qed

text \<open>
  Claim C7. \<open>InsertOrder\<close> of an order with an empty id should return a non-empty id
  that is not yet in the store, and \<open>InsertOrder\<close> of an order whose id is the id of a
  stored order should fail with \<open>ErrOrderExists\<close> and leave the stored order as it is.
  The method returns \<open>ErrOrderExists\<close> only when the existence lookup returns no error:
  on the store of \<^verbatim>\<open>TestInsertOrder\<close>, which holds \<^verbatim>\<open>"test1"\<close>, a second insertion of
  \<^verbatim>\<open>"test1"\<close> whose lookup fails on the connection is not refused; the order is
  inserted again, its id is returned with a nil error, and the collection holds two
  orders with the id \<^verbatim>\<open>"test1"\<close>. With the lookup running, the same insertion is
  refused.
\<close>

theorem InsertOrder_duplicate_id_inserted_on_lookup_error:
  "ID order1 = ''test1''
   \<and> ID order1 \<in> ID ` set [order1]
   \<and> InsertOrder drawn_uuid (Some ''connection reset by peer'') None [order1] order1
       = (Inr ''test1'', [order1, order1])
   \<and> InsertOrder drawn_uuid None None [order1] order1 = (Inl ErrOrderExists, [order1])"
  by (simp add: InsertOrder_def insert_document_def InsertOne_def FindOne_def order1_def)

text \<open>
  Claim C10. \<open>InsertOrder\<close> returns \<open>ErrOrderExists\<close> exactly when the order has an id
  and the existence lookup succeeds (finds and decodes an order). When the lookup
  returns an error, whichever it is, the method goes on to the insertion as if the id
  were new; so with a lookup that fails at the transport level and an insertion that
  succeeds, the order is appended and its id returned, whatever the collection holds.
\<close>

theorem InsertOrder_exists_only_when_lookup_succeeds:
  "(fst (InsertOrder u ff fi coll ord) = Inl ErrOrderExists \<longleftrightarrow>
      ID ord \<noteq> [] \<and> (\<exists>found. FindOne ff coll (filter_id (ID ord)) = Inr found))
   \<and> (ID ord \<noteq> [] \<and> FindOne ff coll (filter_id (ID ord)) = Inl err \<longrightarrow>
        InsertOrder u ff fi coll ord = insert_document fi coll ord)
   \<and> (ID ord \<noteq> [] \<longrightarrow>
        InsertOrder u (Some msg) None coll ord = (Inr (ID ord), coll @ [ord]))"
  by (auto simp: InsertOrder_def insert_document_def InsertOne_def FindOne_def
      split: sum.splits option.splits)

text \<open>
  The theorem at a store that already holds \<^verbatim>\<open>"test1"\<close>: when the lookup fails on the
  connection, a second \<^verbatim>\<open>"test1"\<close> is inserted; when the lookup runs, the insertion is refused.
\<close>

theorem InsertOrder_exists_only_when_lookup_succeeds_witness:
  "ID order1 \<noteq> []
   \<and> FindOne (Some ''connection reset by peer'') [order1] (filter_id (ID order1))
       = Inl (DriverError ''connection reset by peer'')
   \<and> InsertOrder drawn_uuid (Some ''connection reset by peer'') None [order1] order1
       = (Inr ''test1'', [order1, order1])
   \<and> FindOne None [order1] (filter_id (ID order1)) = Inr order1
   \<and> fst (InsertOrder drawn_uuid None None [order1] order1) = Inl ErrOrderExists"
proof -
  have id: "ID order1 \<noteq> []" "ID order1 = ''test1''"
    by (simp_all add: order1_def)
  have failing: "FindOne (Some ''connection reset by peer'') [order1] (filter_id (ID order1))
      = Inl (DriverError ''connection reset by peer'')"
    by (simp add: FindOne_def)
  have running: "FindOne None [order1] (filter_id (ID order1)) = Inr order1"
    by (simp add: FindOne_def)
  from InsertOrder_exists_only_when_lookup_succeeds
         [of drawn_uuid "Some ''connection reset by peer''" None "[order1]" order1
             "DriverError ''connection reset by peer''" "''connection reset by peer''"]
    InsertOrder_exists_only_when_lookup_succeeds
         [of drawn_uuid None None "[order1]" order1]
    id failing running
  show ?thesis
    by (simp add: insert_document_def InsertOne_def)
qed

subsection \<open>Listing orders\<close>

text \<open>
  What \<open>GetOrders\<close> does with a cursor that is read to its end, and with a status that
  no stored order has (whatever then happens to the cursor, it has no document).
\<close>

lemma GetOrders_loop_documents:
  "GetOrders_loop (map Document docs) orders = Inr (orders @ docs)"
  by (induction docs arbitrary: orders) simp_all

lemma GetOrders_cursor_read_to_end: "GetOrders None None coll (- 1) = Inr coll"
  by (simp add: GetOrders_def Find_def GetOrders_loop_documents)

lemma cursor_of_no_document: "cursor_of cf [] = []"
  by (cases "(cf, [] :: Order list)" rule: cursor_of.cases) simp_all

lemma GetOrders_no_match:
  "status \<noteq> - 1 \<Longrightarrow> \<forall>ord \<in> set coll. Status ord \<noteq> status \<Longrightarrow>
     GetOrders None cf coll status = Inr []"
proof -
  assume "status \<noteq> - 1" and "\<forall>ord \<in> set coll. Status ord \<noteq> status"
  then have "filter (matches (filter_status status)) coll = []"
    by (simp add: filter_empty_conv)
  with \<open>status \<noteq> - 1\<close> show ?thesis
    by (simp add: GetOrders_def Find_def cursor_of_no_document)
qed

text \<open>
  Claim C9. \<open>GetOrders\<close> with the status -1 should return all stored orders, and with
  a status that matches no stored order the empty list and no error. The loop of
  \<open>GetOrders\<close> is left when \<^verbatim>\<open>cursor.Next\<close> returns false and the method never reads
  \<^verbatim>\<open>cursor.Err()\<close>: on the store of \<^verbatim>\<open>TestGetOrders\<close> (two orders), when \<^verbatim>\<open>Next\<close> fails
  after the first document, \<open>GetOrders\<close> with -1 returns the first order alone with a
  nil error, and \<open>getOrders\<close> answers 200 with that one order. With the cursor read to
  its end both orders are returned, and a status that no stored order has gives the
  empty list and no error also with the failing cursor.
\<close>

theorem GetOrders_returns_part_when_cursor_fails:
  "GetOrders None (Some (NextFails 1)) [order1, order2] (- 1) = Inr [order1]
   \<and> getOrders (test_env\<lparr>cursor_fault := Some (NextFails 1)\<rparr>) [order1, order2] []
       = \<lparr>written = [(StatusOK, getOrdersRes [order1])], stor = [order1, order2],
          charged = [], status_writes = []\<rparr>
   \<and> GetOrders None None [order1, order2] (- 1) = Inr [order1, order2]
   \<and> GetOrders None (Some (NextFails 1)) [order1, order2] OrderStatusPending = Inr []"
  by (simp add: GetOrders_def Find_def getOrders_def status_of_query_def respond_def
      test_env_def order1_def order2_def status_defs)

subsection \<open>Fulfilling an order\<close>

text \<open>
  Claim C8. Fulfilling an order that is already Fulfilled should succeed without side
  effects. The package defines the arguments of the fulfillment service and no handler
  (the function is a TODO), and \<open>Handler\<close> registers no route for it: with a Fulfilled
  order \<^verbatim>\<open>"test"\<close> in the store, the requests \<^verbatim>\<open>POST /orders/test/fulfill\<close> and
  \<^verbatim>\<open>PUT /fulfill\<close> are answered by the router with 404.
\<close>

theorem fulfill_is_not_routed:
  "ServeHTTP test_env [test_order [item ''item 1'' 100 1] OrderStatusFulfilled] post_fulfill
     = \<lparr>written = [(StatusNotFound, page_not_found)],
        stor = [test_order [item ''item 1'' 100 1] OrderStatusFulfilled],
        charged = [], status_writes = []\<rparr>
   \<and> ServeHTTP test_env [test_order [item ''item 1'' 100 1] OrderStatusFulfilled] put_fulfill
     = \<lparr>written = [(StatusNotFound, page_not_found)],
        stor = [test_order [item ''item 1'' 100 1] OrderStatusFulfilled],
        charged = [], status_writes = []\<rparr>"
  by (simp add: ServeHTTP_def Handler_def respond_def post_fulfill_def put_fulfill_def)

end
